theory Spec2Isabelle
  imports Main
begin

section \<open>The Python runtime, as far as transpile.py uses it\<close>

text \<open>
  The script \<^verbatim>\<open>scripts/pipeline/transpile.py\<close> reads \<^verbatim>\<open>sys.argv\<close>, prints to the two
  standard streams, opens a file in text mode and may leave through an exception. Each of
  these is written out here: exceptions are values of \<open>exn\<close>, the streams and the file
  system are fields of a \<open>world\<close> that every statement takes and returns.

  Text is a \<open>string\<close>. The codec that turns the bytes of a file into Python text and the
  text printed back into bytes is not part of the model: files are taken to decode, and
  standard output to encode with the same codec, on a platform whose line separator is
  the line feed. The three \<^verbatim>\<open>import\<close> statements at the head of the module are taken to
  succeed without output.
\<close>

datatype exn =
    IndexError
  | FileNotFoundError string
  | IsADirectoryError string
  | PermissionError string
  | LibraryError string
  | SystemExit nat

text \<open>
  A path names nothing, a directory, or a regular file with its content and whether the
  process may read it.
\<close>

datatype node = Regular bool string | Directory

type_synonym filesystem = "string \<rightharpoonup> node"

text \<open>
  Standard error receives text written by a \<^verbatim>\<open>print(..., file=sys.stderr)\<close> statement
  of the program, or the traceback that the interpreter writes for an exception nobody
  caught. The traceback's wording belongs to the interpreter; the model keeps only which
  exception it reports.
\<close>

datatype err_item = Written string | Traceback exn

record world =
  files :: filesystem
  stdout :: string
  stderr :: "err_item list"

abbreviation LF :: char where "LF \<equiv> CHR 0x0A"
abbreviation CR :: char where "CR \<equiv> CHR 0x0D"

text \<open>\<^verbatim>\<open>print(s)\<close>: the text, then the line feed that \<^verbatim>\<open>print\<close> appends.\<close>

definition print_out :: "string \<Rightarrow> world \<Rightarrow> world" where
  "print_out s w = w\<lparr>stdout := stdout w @ s @ [LF]\<rparr>"


text \<open>\<^verbatim>\<open>sys.argv[i]\<close> for a literal index \<open>i \<ge> 0\<close>: out of range raises.\<close>

definition argv_item :: "string list \<Rightarrow> nat \<Rightarrow> exn + string" where
  "argv_item argv i = (if i < length argv then Inr (argv ! i) else Inl IndexError)"


text \<open>
  \<^verbatim>\<open>open(p, 'r')\<close>: the file object is represented by the stored content it will read.
\<close>

definition open_r :: "filesystem \<Rightarrow> string \<Rightarrow> exn + string" where
  "open_r fs p =
     (case fs p of
        None \<Rightarrow> Inl (FileNotFoundError p)
      | Some Directory \<Rightarrow> Inl (IsADirectoryError p)
      | Some (Regular readable c) \<Rightarrow> if readable then Inr c else Inl (PermissionError p))"

text \<open>
  A file opened with mode \<^verbatim>\<open>'r'\<close> and no \<^verbatim>\<open>newline\<close> argument reads with universal
  newlines: a carriage return followed by a line feed, and a carriage return alone, each
  arrive as one line feed.
\<close>

fun universal_newlines :: "string \<Rightarrow> string" where
  "universal_newlines [] = []"
| "universal_newlines [c] = (if c = CR then [LF] else [c])"
| "universal_newlines (c # d # ds) =
     (if c = CR \<and> d = LF then LF # universal_newlines ds
      else if c = CR then LF # universal_newlines (d # ds)
      else c # universal_newlines (d # ds))"

text \<open>\<^verbatim>\<open>f.read()\<close> on such a file object.\<close>

definition read_text :: "string \<Rightarrow> string" where
  "read_text f = universal_newlines f"


text \<open>\<^verbatim>\<open>except Exception\<close> catches every exception of the model but \<^verbatim>\<open>SystemExit\<close>.\<close>

fun is_Exception :: "exn \<Rightarrow> bool" where
  "is_Exception (SystemExit n) = False"
| "is_Exception e = True"

section \<open>The module\<close>

subsection \<open>The function \<^verbatim>\<open>main\<close> (lines 6 to 58)\<close>



subsection \<open>The block under \<^verbatim>\<open>if __name__ == "__main__"\<close> (lines 60 to 68)\<close>

text \<open>
  The f-string evaluates \<^verbatim>\<open>sys.argv[1]\<close> before \<^verbatim>\<open>print\<close> is called; the \<^verbatim>\<open>with\<close>
  statement evaluates it again, opens the file, and prints what \<^verbatim>\<open>read\<close> returns.
\<close>

definition main_block :: "string list \<Rightarrow> world \<Rightarrow> (exn + unit) \<times> world" where
  "main_block argv w =
     (case argv_item argv 1 of
        Inl e \<Rightarrow> (Inl e, w)
      | Inr p \<Rightarrow>
          (let w1 = print_out (''// SIMULATED transpilation of '' @ p) w in
           case argv_item argv 1 of
             Inl e \<Rightarrow> (Inl e, w1)
           | Inr q \<Rightarrow>
               (case open_r (files w1) q of
                  Inl e \<Rightarrow> (Inl e, w1)
                | Inr f \<Rightarrow> (Inr (), print_out (read_text f) w1))))"

text \<open>
  The module body: the \<^verbatim>\<open>def\<close> statement binds the name \<^verbatim>\<open>main\<close> and runs
  nothing; the block runs when the module's name is \<^verbatim>\<open>__main__\<close>.
\<close>

definition run_module :: "string \<Rightarrow> string list \<Rightarrow> world \<Rightarrow> (exn + unit) \<times> world" where
  "run_module name argv w =
     (if name = ''__main__'' then main_block argv w else (Inr (), w))"

subsection \<open>The process\<close>

text \<open>
  How the interpreter ends: status 0 after the last statement, the status given to
  \<^verbatim>\<open>sys.exit\<close>, and status 1 with a traceback on standard error for any other
  exception that reaches the top.
\<close>

fun interpreter_exit :: "(exn + unit) \<times> world \<Rightarrow> nat \<times> world" where
  "interpreter_exit (Inr u, w) = (0, w)"
| "interpreter_exit (Inl (SystemExit n), w) = (n, w)"
| "interpreter_exit (Inl e, w) = (1, w\<lparr>stderr := stderr w @ [Traceback e]\<rparr>)"

definition boot :: "filesystem \<Rightarrow> world" where
  "boot fs = \<lparr>files = fs, stdout = [], stderr = []\<rparr>"

text \<open>
  \<^verbatim>\<open>python script args...\<close>: the interpreter puts the script's path in front of the
  arguments and runs the module under the name \<^verbatim>\<open>__main__\<close>, both streams empty.
\<close>

definition invoke :: "string \<Rightarrow> string list \<Rightarrow> filesystem \<Rightarrow> nat \<times> world" where
  "invoke script args fs =
     interpreter_exit (run_module ''__main__'' (script # args) (boot fs))"

subsection \<open>The echo program of the specification\<close>


section \<open>Basic facts\<close>

lemmas script_defs = invoke_def run_module_def main_block_def argv_item_def boot_def open_r_def
  print_out_def read_text_def



lemma open_r_missing: "fs p = None \<Longrightarrow> open_r fs p = Inl (FileNotFoundError p)"
  by (simp add: open_r_def)

lemma open_r_raises_Exception: "open_r fs p = Inl e \<Longrightarrow> is_Exception e"
  by (auto simp: open_r_def split: option.splits node.splits if_splits)

lemma interpreter_exit_raised:
  "is_Exception e \<Longrightarrow>
     interpreter_exit (Inl e, w) = (1, w\<lparr>stderr := stderr w @ [Traceback e]\<rparr>)"
  by (cases e) simp_all

text \<open>The three ways a run of the script can go.\<close>

lemma invoke_no_argument:
  "invoke script [] fs = (1, \<lparr>files = fs, stdout = [], stderr = [Traceback IndexError]\<rparr>)"
  by (simp add: script_defs)

lemma invoke_opened:
  assumes "open_r fs p = Inr f"
  shows "invoke script (p # rest) fs =
    (0, \<lparr>files = fs,
         stdout = ''// SIMULATED transpilation of '' @ p @ [LF] @ universal_newlines f @ [LF],
         stderr = []\<rparr>)"
  using assms by (simp add: invoke_def run_module_def main_block_def argv_item_def boot_def
      print_out_def read_text_def)

lemma invoke_open_failed:
  assumes "open_r fs p = Inl e"
  shows "invoke script (p # rest) fs =
    (1, \<lparr>files = fs, stdout = ''// SIMULATED transpilation of '' @ p @ [LF],
         stderr = [Traceback e]\<rparr>)"
proof -
  from assms have "run_module ''__main__'' (script # p # rest) (boot fs) =
      (Inl e, \<lparr>files = fs, stdout = ''// SIMULATED transpilation of '' @ p @ [LF], stderr = []\<rparr>)"
    by (simp add: run_module_def main_block_def argv_item_def boot_def print_out_def)
  with open_r_raises_Exception[OF assms] show ?thesis
    by (simp add: invoke_def interpreter_exit_raised)
qed


section \<open>The module against the echo program and against \<^verbatim>\<open>main\<close>\<close>




section \<open>Properties\<close>

subsection \<open>Output for a readable file\<close>







subsection \<open>Failures\<close>

text \<open>
  C3, as the code has it. For a path that names nothing, given as the single argument,
  the process ends with a non-zero status, and standard output holds the header line
  for that path and nothing else.
\<close>

theorem missing_file_fails_after_header:
  "fs p = None \<Longrightarrow>
     fst (invoke script [p] fs) \<noteq> 0
     \<and> stdout (snd (invoke script [p] fs)) = ''// SIMULATED transpilation of '' @ p @ [LF]"
  by (simp add: invoke_open_failed[OF open_r_missing])

theorem missing_file_example:
  "(Map.empty :: filesystem) ''missing.py'' = None
   \<and> fst (invoke ''transpile.py'' [''missing.py''] Map.empty) \<noteq> 0
   \<and> stdout (snd (invoke ''transpile.py'' [''missing.py''] Map.empty))
       = ''// SIMULATED transpilation of missing.py'' @ [LF]"
  using missing_file_fails_after_header[where fs = Map.empty and p = "''missing.py''"
      and script = "''transpile.py''"]
  by simp

text \<open>With \<^verbatim>\<open>missing.py\<close> absent, standard output is not empty.\<close>

theorem missing_file_output_not_empty:
  "stdout (snd (invoke ''transpile.py'' [''missing.py''] Map.empty)) \<noteq> []"
  by (simp add: script_defs)

text \<open>
  C4. With no argument at all the process ends with a non-zero status; what reaches
  standard error is the traceback of an index error on the argument vector, not a usage
  message, and standard output stays empty.
\<close>

theorem no_argument_index_error:
  "fst (invoke script [] fs) \<noteq> 0
   \<and> stderr (snd (invoke script [] fs)) = [Traceback IndexError]
   \<and> stdout (snd (invoke script [] fs)) = []"
  by (simp add: invoke_no_argument)


text \<open>
  C6. When the path given as the single argument cannot be opened for reading, the
  exception leaves the module with exactly the header line printed: the world at that
  moment is the initial one after \<^verbatim>\<open>print\<close> of the header, and the standard output of
  the process is the header followed by a line feed.
\<close>

theorem header_before_open:
  "open_r fs p = Inl e \<Longrightarrow>
     run_module ''__main__'' [script, p] (boot fs)
       = (Inl e, print_out (''// SIMULATED transpilation of '' @ p) (boot fs))
     \<and> stdout (snd (invoke script [p] fs)) = ''// SIMULATED transpilation of '' @ p @ [LF]"
  by (simp add: invoke_open_failed)
     (simp add: run_module_def main_block_def argv_item_def print_out_def boot_def)

theorem header_before_open_directory:
  "open_r [''src'' \<mapsto> Directory] ''src'' = Inl (IsADirectoryError ''src'')
   \<and> run_module ''__main__'' [''transpile.py'', ''src''] (boot [''src'' \<mapsto> Directory])
       = (Inl (IsADirectoryError ''src''),
          print_out ''// SIMULATED transpilation of src'' (boot [''src'' \<mapsto> Directory]))
   \<and> stdout (snd (invoke ''transpile.py'' [''src''] [''src'' \<mapsto> Directory]))
       = ''// SIMULATED transpilation of src'' @ [LF]"
  using header_before_open[where fs = "[''src'' \<mapsto> Directory]" and p = "''src''"
      and e = "IsADirectoryError ''src''" and script = "''transpile.py''"]
  by (simp add: open_r_def)



subsection \<open>Determinism, effects, extra arguments\<close>

text \<open>
  C8. Two runs with the same path as first argument, in two file systems that agree on
  what that path names, write the same standard output, whatever else differs: the
  script's own path, further arguments, the rest of the file system.
\<close>

theorem deterministic_output:
  "fs1 p = fs2 p \<Longrightarrow>
     stdout (snd (invoke script1 (p # rest1) fs1))
       = stdout (snd (invoke script2 (p # rest2) fs2))"
proof -
  assume same: "fs1 p = fs2 p"
  then have o: "open_r fs1 p = open_r fs2 p" by (simp add: open_r_def)
  show ?thesis
  proof (cases "open_r fs2 p")
    case (Inl e)
    with o show ?thesis by (simp add: invoke_open_failed)
  next
    case (Inr f)
    with o show ?thesis by (simp add: invoke_opened)
  qed
qed

theorem deterministic_output_example:
  "[''a.py'' \<mapsto> Regular True ''x = 1''] ''a.py''
     = [''b.py'' \<mapsto> Directory, ''a.py'' \<mapsto> Regular True ''x = 1''] ''a.py''
   \<and> stdout (snd (invoke ''transpile.py'' [''a.py''] [''a.py'' \<mapsto> Regular True ''x = 1'']))
     = stdout (snd (invoke ''./transpile.py'' [''a.py'', ''b.py'']
          [''b.py'' \<mapsto> Directory, ''a.py'' \<mapsto> Regular True ''x = 1'']))"
  using deterministic_output[where ?fs1.0 = "[''a.py'' \<mapsto> Regular True ''x = 1'']"
      and p = "''a.py''"
      and ?fs2.0 = "[''b.py'' \<mapsto> Directory, ''a.py'' \<mapsto> Regular True ''x = 1'']"
      and ?script1.0 = "''transpile.py''" and ?rest1.0 = "[]"
      and ?script2.0 = "''./transpile.py''" and ?rest2.0 = "[''b.py'']"]
  by simp






end
